theory Spec2Isabelle
  imports Main "HOL-Library.Multiset"
begin

section \<open>Python values, runtime types and the object store\<close>

text \<open>
  The accumulator functions of \<^verbatim>\<open>accumulate.py\<close> dispatch on the runtime capabilities of
  their operands, mutate objects in place (\<^verbatim>\<open>iadd\<close>) and promise not to (\<^verbatim>\<open>add\<close>).
  The model therefore keeps an explicit store: a list of objects, an address being an
  index into it, so that allocation appends and an address is fresh exactly when it is
  at least the length of the store.

  A runtime type has a name, the names of its base classes and a flag telling whether the
  class defines \<^verbatim>\<open>__add__\<close> (which is what the runtime-checkable protocol \<^verbatim>\<open>Addable\<close>
  tests).
\<close>

type_synonym addr = nat

datatype pytype = PyType (tname: string) (tbases: "string list") (has_add: bool)

datatype val = VNone | VInt int | VRef addr

datatype obj =
    OList "val list"
  | OSet pytype "int set"
  | ODict pytype "(string \<times> val) list"

type_synonym heap = "obj list"

datatype error =
    ValueError_mappings pytype pytype
  | ValueError_accumulators pytype pytype
  | TypeError_operands pytype pytype
  | KeyError string
  | RuntimeError_changed_size
  | RecursionError

definition NoneType :: pytype where
  "NoneType = PyType ''NoneType'' [''object''] False"

definition int_type :: pytype where
  "int_type = PyType ''int'' [''object''] True"

definition list_type :: pytype where
  "list_type = PyType ''list'' [''object''] True"

definition set_type :: pytype where
  "set_type = PyType ''set'' [''object''] False"

definition dict_type :: pytype where
  "dict_type = PyType ''dict'' [''object''] False"

definition lookup :: "heap \<Rightarrow> addr \<Rightarrow> obj option" where
  "lookup h p = (if p < length h then Some (h ! p) else None)"

text \<open>\<^verbatim>\<open>type(x)\<close>. An address outside the store does not occur in a Python program; the
  model gives it the type of \<^verbatim>\<open>None\<close>, which has no capability.\<close>

definition type_of :: "heap \<Rightarrow> val \<Rightarrow> pytype" where
  "type_of h v =
     (case v of
        VNone \<Rightarrow> NoneType
      | VInt i \<Rightarrow> int_type
      | VRef p \<Rightarrow>
          (case lookup h p of
             None \<Rightarrow> NoneType
           | Some (OList xs) \<Rightarrow> list_type
           | Some (OSet t s) \<Rightarrow> t
           | Some (ODict t es) \<Rightarrow> t))"

text \<open>\<^verbatim>\<open>isinstance(x, T)\<close> where \<open>tx\<close> is the type of \<open>x\<close>: \<open>T\<close> is the type itself or one
  of its bases.\<close>

definition isinstance_ty :: "pytype \<Rightarrow> pytype \<Rightarrow> bool" where
  "isinstance_ty tx T = (tname T \<in> set (tname tx # tbases tx))"

text \<open>The three capability tests of the source: \<^verbatim>\<open>isinstance(x, Addable)\<close>,
  \<^verbatim>\<open>isinstance(x, MutableSet)\<close>, \<^verbatim>\<open>isinstance(x, MutableMapping)\<close>.\<close>

definition is_addable :: "heap \<Rightarrow> val \<Rightarrow> bool" where
  "is_addable h v = has_add (type_of h v)"

definition is_mutable_set :: "heap \<Rightarrow> val \<Rightarrow> bool" where
  "is_mutable_set h v =
     (case v of VRef p \<Rightarrow> (case lookup h p of Some (OSet t s) \<Rightarrow> True | _ \<Rightarrow> False)
      | _ \<Rightarrow> False)"

definition is_mutable_mapping :: "heap \<Rightarrow> val \<Rightarrow> bool" where
  "is_mutable_mapping h v =
     (case v of VRef p \<Rightarrow> (case lookup h p of Some (ODict t es) \<Rightarrow> True | _ \<Rightarrow> False)
      | _ \<Rightarrow> False)"

text \<open>A set or mapping whose class defines \<^verbatim>\<open>__add__\<close> itself (as \<^verbatim>\<open>collections.Counter\<close>
  does). What that method computes is not part of this repository: it is a parameter.\<close>

definition is_user_addable :: "heap \<Rightarrow> val \<Rightarrow> bool" where
  "is_user_addable h v =
     (case v of
        VRef p \<Rightarrow>
          (case lookup h p of
             Some (OSet t s) \<Rightarrow> has_add t
           | Some (ODict t es) \<Rightarrow> has_add t
           | _ \<Rightarrow> False)
      | _ \<Rightarrow> False)"

record userops =
  user_add :: "heap \<Rightarrow> val \<Rightarrow> val \<Rightarrow> error + heap \<times> val"
  user_iadd :: "heap \<Rightarrow> val \<Rightarrow> val \<Rightarrow> error + heap \<times> val"

section \<open>The operators the source delegates to\<close>

text \<open>\<^verbatim>\<open>operator.add(a, b)\<close>: integer sum, list concatenation into a new list (the
  elements are shared, not copied), the class's own method for a class that defines one,
  and \<^verbatim>\<open>TypeError\<close> for an integer and a list.\<close>

definition operator_add :: "userops \<Rightarrow> heap \<Rightarrow> val \<Rightarrow> val \<Rightarrow> error + heap \<times> val" where
  "operator_add ops h a b =
     (if is_user_addable h a \<or> is_user_addable h b then user_add ops h a b
      else
        (case (a, b) of
           (VInt x, VInt y) \<Rightarrow> Inr (h, VInt (x + y))
         | (VRef p, VRef q) \<Rightarrow>
             (case (lookup h p, lookup h q) of
                (Some (OList xs), Some (OList ys)) \<Rightarrow>
                  Inr (h @ [OList (xs @ ys)], VRef (length h))
              | _ \<Rightarrow> Inl (TypeError_operands (type_of h a) (type_of h b)))
         | _ \<Rightarrow> Inl (TypeError_operands (type_of h a) (type_of h b))))"

text \<open>\<^verbatim>\<open>operator.iadd(a, b)\<close>: an integer has no in-place method, so the result is the new
  sum; a list is extended in place and returned.\<close>

definition operator_iadd :: "userops \<Rightarrow> heap \<Rightarrow> val \<Rightarrow> val \<Rightarrow> error + heap \<times> val" where
  "operator_iadd ops h a b =
     (if is_user_addable h a \<or> is_user_addable h b then user_iadd ops h a b
      else
        (case (a, b) of
           (VInt x, VInt y) \<Rightarrow> Inr (h, VInt (x + y))
         | (VRef p, VRef q) \<Rightarrow>
             (case (lookup h p, lookup h q) of
                (Some (OList xs), Some (OList ys)) \<Rightarrow>
                  Inr (h[p := OList (xs @ ys)], VRef p)
              | _ \<Rightarrow> Inl (TypeError_operands (type_of h a) (type_of h b)))
         | _ \<Rightarrow> Inl (TypeError_operands (type_of h a) (type_of h b))))"

text \<open>\<^verbatim>\<open>operator.or_(a, b)\<close> on two sets: a new object of the built-in set type.\<close>

definition operator_or :: "heap \<Rightarrow> val \<Rightarrow> val \<Rightarrow> error + heap \<times> val" where
  "operator_or h a b =
     (case (a, b) of
        (VRef p, VRef q) \<Rightarrow>
          (case (lookup h p, lookup h q) of
             (Some (OSet ta sa), Some (OSet tb sb)) \<Rightarrow>
               Inr (h @ [OSet set_type (sa \<union> sb)], VRef (length h))
           | _ \<Rightarrow> Inl (TypeError_operands (type_of h a) (type_of h b)))
      | _ \<Rightarrow> Inl (TypeError_operands (type_of h a) (type_of h b)))"

text \<open>\<^verbatim>\<open>operator.ior(a, b)\<close> on two sets: \<open>a\<close> is updated in place and returned.\<close>

definition operator_ior :: "heap \<Rightarrow> val \<Rightarrow> val \<Rightarrow> error + heap \<times> val" where
  "operator_ior h a b =
     (case (a, b) of
        (VRef p, VRef q) \<Rightarrow>
          (case (lookup h p, lookup h q) of
             (Some (OSet ta sa), Some (OSet tb sb)) \<Rightarrow>
               Inr (h[p := OSet ta (sa \<union> sb)], VRef p)
           | _ \<Rightarrow> Inl (TypeError_operands (type_of h a) (type_of h b)))
      | _ \<Rightarrow> Inl (TypeError_operands (type_of h a) (type_of h b)))"

subsection \<open>Dictionary access\<close>

text \<open>The entries of a mapping, in insertion order; no entries for anything else.\<close>

definition entries :: "heap \<Rightarrow> addr \<Rightarrow> (string \<times> val) list" where
  "entries h p = (case lookup h p of Some (ODict t es) \<Rightarrow> es | _ \<Rightarrow> [])"

definition keys :: "heap \<Rightarrow> addr \<Rightarrow> string list" where
  "keys h p = map fst (entries h p)"

text \<open>\<^verbatim>\<open>d[k]\<close>, raising \<^verbatim>\<open>KeyError\<close>.\<close>

definition getitem :: "heap \<Rightarrow> addr \<Rightarrow> string \<Rightarrow> error + val" where
  "getitem h p k = (case map_of (entries h p) k of None \<Rightarrow> Inl (KeyError k) | Some v \<Rightarrow> Inr v)"

text \<open>\<^verbatim>\<open>d[k] = v\<close> on the entries: an existing key keeps its position, a new key goes last.\<close>

fun set_entry :: "(string \<times> val) list \<Rightarrow> string \<Rightarrow> val \<Rightarrow> (string \<times> val) list" where
  "set_entry [] k v = [(k, v)]"
| "set_entry ((k', v') # es) k v =
     (if k' = k then (k, v) # es else (k', v') # set_entry es k v)"

definition setitem :: "heap \<Rightarrow> addr \<Rightarrow> string \<Rightarrow> val \<Rightarrow> heap" where
  "setitem h p k v =
     (case lookup h p of
        Some (ODict t es) \<Rightarrow> h[p := ODict t (set_entry es k v)]
      | _ \<Rightarrow> h)"

text \<open>\<^verbatim>\<open>l.append(v)\<close>.\<close>

definition list_append :: "heap \<Rightarrow> addr \<Rightarrow> val \<Rightarrow> heap" where
  "list_append h p v =
     (case lookup h p of
        Some (OList xs) \<Rightarrow> h[p := OList (xs @ [v])]
      | _ \<Rightarrow> h)"

section \<open>\<^verbatim>\<open>copy.deepcopy\<close>\<close>

text \<open>
  The library function, with its memo table from the addresses already copied to their
  copies: \<^verbatim>\<open>None\<close> and integers are returned as they are; a list, a set or a mapping is
  copied into a new object of the same type, registered in the memo before its contents
  are copied one by one, so that sharing and cycles are reproduced. The first argument
  bounds the depth of the recursion, as Python's recursion limit does.
\<close>

type_synonym memo = "(addr \<times> addr) list"

text \<open>The loops of \<^verbatim>\<open>_deepcopy_list\<close> and \<^verbatim>\<open>_deepcopy_dict\<close> over the contents of the
  original, filling the copy \<open>y\<close>; \<open>dc\<close> is the recursive call.\<close>

primrec deepcopy_list ::
  "(heap \<Rightarrow> memo \<Rightarrow> val \<Rightarrow> error + heap \<times> memo \<times> val) \<Rightarrow>
     heap \<Rightarrow> memo \<Rightarrow> addr \<Rightarrow> val list \<Rightarrow> error + heap \<times> memo" where
  "deepcopy_list dc h memo y [] = Inr (h, memo)"
| "deepcopy_list dc h memo y (x # xs) =
     (case dc h memo x of
        Inl e \<Rightarrow> Inl e
      | Inr (h', memo', x') \<Rightarrow> deepcopy_list dc (list_append h' y x') memo' y xs)"

primrec deepcopy_dict ::
  "(heap \<Rightarrow> memo \<Rightarrow> val \<Rightarrow> error + heap \<times> memo \<times> val) \<Rightarrow>
     heap \<Rightarrow> memo \<Rightarrow> addr \<Rightarrow> (string \<times> val) list \<Rightarrow> error + heap \<times> memo" where
  "deepcopy_dict dc h memo y [] = Inr (h, memo)"
| "deepcopy_dict dc h memo y (kv # es) =
     (case dc h memo (snd kv) of
        Inl e \<Rightarrow> Inl e
      | Inr (h', memo', v') \<Rightarrow> deepcopy_dict dc (setitem h' y (fst kv) v') memo' y es)"

primrec deepcopy :: "nat \<Rightarrow> heap \<Rightarrow> memo \<Rightarrow> val \<Rightarrow> error + heap \<times> memo \<times> val" where
  "deepcopy 0 h memo v = Inl RecursionError"
| "deepcopy (Suc n) h memo v =
     (case v of
        VNone \<Rightarrow> Inr (h, memo, VNone)
      | VInt i \<Rightarrow> Inr (h, memo, VInt i)
      | VRef p \<Rightarrow>
          (case map_of memo p of
             Some q \<Rightarrow> Inr (h, memo, VRef q)
           | None \<Rightarrow>
               (case lookup h p of
                  None \<Rightarrow> Inr (h, memo, VRef p)
                | Some (OList xs) \<Rightarrow>
                    (case deepcopy_list (deepcopy n) (h @ [OList []]) ((p, length h) # memo)
                            (length h) xs of
                       Inl e \<Rightarrow> Inl e
                     | Inr (h', memo') \<Rightarrow> Inr (h', memo', VRef (length h)))
                | Some (OSet t s) \<Rightarrow>
                    Inr (h @ [OSet t s], (p, length h) # memo, VRef (length h))
                | Some (ODict t es) \<Rightarrow>
                    (case deepcopy_dict (deepcopy n) (h @ [ODict t []]) ((p, length h) # memo)
                            (length h) es of
                       Inl e \<Rightarrow> Inl e
                     | Inr (h', memo') \<Rightarrow> Inr (h', memo', VRef (length h))))))"

section \<open>\<^verbatim>\<open>add\<close>: the copy-producing combine\<close>

text \<open>\<^verbatim>\<open>out = copy.copy(x); out.clear()\<close>: a new, empty mapping of the type \<open>t\<close> of \<open>x\<close>.\<close>

definition new_mapping :: "heap \<Rightarrow> pytype \<Rightarrow> heap" where
  "new_mapping h t = h @ [ODict t []]"

text \<open>
  A loop over the keys of a mapping runs over the keys \<open>ks\<close> it had when the loop started;
  as the dictionary iterator does, each step first checks that the mapping still has as
  many entries (\<open>len\<close>) as then. The functions of this file never remove a key, so an
  unchanged size means unchanged keys.

  \<^verbatim>\<open>for key in a: if key in rhs: out[key] = add(a[key], b[key])
                 else: out[key] = copy.deepcopy(a[key])\<close>
  where \<open>rec\<close> is the recursive call of \<^verbatim>\<open>add\<close> and \<open>n\<close> the recursion depth left.
\<close>

primrec add_keys_a ::
  "(heap \<Rightarrow> val \<Rightarrow> val \<Rightarrow> error + heap \<times> val) \<Rightarrow> nat \<Rightarrow> addr \<Rightarrow> addr \<Rightarrow> addr \<Rightarrow>
     string set \<Rightarrow> nat \<Rightarrow> string list \<Rightarrow> heap \<Rightarrow> error + heap" where
  "add_keys_a rec n out pa pb rhs len [] h =
     (if length (entries h pa) \<noteq> len then Inl RuntimeError_changed_size else Inr h)"
| "add_keys_a rec n out pa pb rhs len (k # ks) h =
     (if length (entries h pa) \<noteq> len then Inl RuntimeError_changed_size
      else if k \<in> rhs then
        (case getitem h pa k of
           Inl e \<Rightarrow> Inl e
         | Inr va \<Rightarrow>
             (case getitem h pb k of
                Inl e \<Rightarrow> Inl e
              | Inr vb \<Rightarrow>
                  (case rec h va vb of
                     Inl e \<Rightarrow> Inl e
                   | Inr (h', r) \<Rightarrow>
                       add_keys_a rec n out pa pb rhs len ks (setitem h' out k r))))
      else
        (case getitem h pa k of
           Inl e \<Rightarrow> Inl e
         | Inr va \<Rightarrow>
             (case deepcopy n h [] va of
                Inl e \<Rightarrow> Inl e
              | Inr (h', memo, c) \<Rightarrow>
                  add_keys_a rec n out pa pb rhs len ks (setitem h' out k c))))"

text \<open>\<^verbatim>\<open>for key in b: if key not in lhs: out[key] = copy.deepcopy(b[key])\<close>\<close>

primrec add_keys_b ::
  "nat \<Rightarrow> addr \<Rightarrow> addr \<Rightarrow> string set \<Rightarrow> nat \<Rightarrow> string list \<Rightarrow> heap \<Rightarrow> error + heap" where
  "add_keys_b n out pb lhs len [] h =
     (if length (entries h pb) \<noteq> len then Inl RuntimeError_changed_size else Inr h)"
| "add_keys_b n out pb lhs len (k # ks) h =
     (if length (entries h pb) \<noteq> len then Inl RuntimeError_changed_size
      else if k \<notin> lhs then
        (case getitem h pb k of
           Inl e \<Rightarrow> Inl e
         | Inr vb \<Rightarrow>
             (case deepcopy n h [] vb of
                Inl e \<Rightarrow> Inl e
              | Inr (h', memo, c) \<Rightarrow> add_keys_b n out pb lhs len ks (setitem h' out k c)))
      else add_keys_b n out pb lhs len ks h)"

text \<open>The mapping branch of \<^verbatim>\<open>add\<close> once the type \<open>t\<close> of the result is chosen.\<close>

definition add_mapping ::
  "(heap \<Rightarrow> val \<Rightarrow> val \<Rightarrow> error + heap \<times> val) \<Rightarrow> nat \<Rightarrow> heap \<Rightarrow> pytype \<Rightarrow> addr \<Rightarrow> addr \<Rightarrow>
     error + heap \<times> val" where
  "add_mapping rec n h t pa pb =
     (let out = length h;
          h0 = new_mapping h t;
          lhs = set (keys h0 pa);
          rhs = set (keys h0 pb)
      in case add_keys_a rec n out pa pb rhs (length (keys h0 pa)) (keys h0 pa) h0 of
           Inl e \<Rightarrow> Inl e
         | Inr h1 \<Rightarrow>
             (case add_keys_b n out pb lhs (length (keys h1 pb)) (keys h1 pb) h1 of
                Inl e \<Rightarrow> Inl e
              | Inr h2 \<Rightarrow> Inr (h2, VRef out)))"

text \<open>\<^verbatim>\<open>add(a, b)\<close>. The first argument after the operators bounds the depth of the
  recursion (Python's recursion limit); exhausting it raises \<^verbatim>\<open>RecursionError\<close>.\<close>

primrec add :: "userops \<Rightarrow> nat \<Rightarrow> heap \<Rightarrow> val \<Rightarrow> val \<Rightarrow> error + heap \<times> val" where
  "add ops 0 h a b = Inl RecursionError"
| "add ops (Suc n) h a b =
     (if is_addable h a \<and> is_addable h b then operator_add ops h a b
      else if is_mutable_set h a \<and> is_mutable_set h b then operator_or h a b
      else if is_mutable_mapping h a \<and> is_mutable_mapping h b then
        (case (a, b) of
           (VRef pa, VRef pb) \<Rightarrow>
             (if isinstance_ty (type_of h b) (type_of h a) then
                add_mapping (add ops n) n h (type_of h a) pa pb
              else if isinstance_ty (type_of h a) (type_of h b) then
                add_mapping (add ops n) n h (type_of h b) pa pb
              else Inl (ValueError_mappings (type_of h a) (type_of h b)))
         | _ \<Rightarrow> Inl (ValueError_accumulators (type_of h a) (type_of h b)))
      else Inl (ValueError_accumulators (type_of h a) (type_of h b)))"

section \<open>\<^verbatim>\<open>iadd\<close>: the in-place combine\<close>

text \<open>\<^verbatim>\<open>for key in a: if key in rhs: a[key] = iadd(a[key], b[key])\<close>\<close>

primrec iadd_keys_a ::
  "(heap \<Rightarrow> val \<Rightarrow> val \<Rightarrow> error + heap \<times> val) \<Rightarrow> addr \<Rightarrow> addr \<Rightarrow>
     string set \<Rightarrow> nat \<Rightarrow> string list \<Rightarrow> heap \<Rightarrow> error + heap" where
  "iadd_keys_a rec pa pb rhs len [] h =
     (if length (entries h pa) \<noteq> len then Inl RuntimeError_changed_size else Inr h)"
| "iadd_keys_a rec pa pb rhs len (k # ks) h =
     (if length (entries h pa) \<noteq> len then Inl RuntimeError_changed_size
      else if k \<in> rhs then
        (case getitem h pa k of
           Inl e \<Rightarrow> Inl e
         | Inr va \<Rightarrow>
             (case getitem h pb k of
                Inl e \<Rightarrow> Inl e
              | Inr vb \<Rightarrow>
                  (case rec h va vb of
                     Inl e \<Rightarrow> Inl e
                   | Inr (h', r) \<Rightarrow> iadd_keys_a rec pa pb rhs len ks (setitem h' pa k r))))
      else iadd_keys_a rec pa pb rhs len ks h)"

text \<open>\<^verbatim>\<open>for key in b: if key not in lhs: a[key] = copy.deepcopy(b[key])\<close>\<close>

primrec iadd_keys_b ::
  "nat \<Rightarrow> addr \<Rightarrow> addr \<Rightarrow> string set \<Rightarrow> nat \<Rightarrow> string list \<Rightarrow> heap \<Rightarrow> error + heap" where
  "iadd_keys_b n pa pb lhs len [] h =
     (if length (entries h pb) \<noteq> len then Inl RuntimeError_changed_size else Inr h)"
| "iadd_keys_b n pa pb lhs len (k # ks) h =
     (if length (entries h pb) \<noteq> len then Inl RuntimeError_changed_size
      else if k \<notin> lhs then
        (case getitem h pb k of
           Inl e \<Rightarrow> Inl e
         | Inr vb \<Rightarrow>
             (case deepcopy n h [] vb of
                Inl e \<Rightarrow> Inl e
              | Inr (h', memo, c) \<Rightarrow> iadd_keys_b n pa pb lhs len ks (setitem h' pa k c)))
      else iadd_keys_b n pa pb lhs len ks h)"

definition iadd_mapping ::
  "(heap \<Rightarrow> val \<Rightarrow> val \<Rightarrow> error + heap \<times> val) \<Rightarrow> nat \<Rightarrow> heap \<Rightarrow> addr \<Rightarrow> addr \<Rightarrow>
     error + heap \<times> val" where
  "iadd_mapping rec n h pa pb =
     (let lhs = set (keys h pa);
          rhs = set (keys h pb)
      in case iadd_keys_a rec pa pb rhs (length (keys h pa)) (keys h pa) h of
           Inl e \<Rightarrow> Inl e
         | Inr h1 \<Rightarrow>
             (case iadd_keys_b n pa pb lhs (length (keys h1 pb)) (keys h1 pb) h1 of
                Inl e \<Rightarrow> Inl e
              | Inr h2 \<Rightarrow> Inr (h2, VRef pa)))"

primrec iadd :: "userops \<Rightarrow> nat \<Rightarrow> heap \<Rightarrow> val \<Rightarrow> val \<Rightarrow> error + heap \<times> val" where
  "iadd ops 0 h a b = Inl RecursionError"
| "iadd ops (Suc n) h a b =
     (if is_addable h a \<and> is_addable h b then operator_iadd ops h a b
      else if is_mutable_set h a \<and> is_mutable_set h b then operator_ior h a b
      else if is_mutable_mapping h a \<and> is_mutable_mapping h b then
        (case (a, b) of
           (VRef pa, VRef pb) \<Rightarrow>
             (if \<not> isinstance_ty (type_of h b) (type_of h a) then
                Inl (ValueError_mappings (type_of h a) (type_of h b))
              else iadd_mapping (iadd ops n) n h pa pb)
         | _ \<Rightarrow> Inl (ValueError_accumulators (type_of h a) (type_of h b)))
      else Inl (ValueError_accumulators (type_of h a) (type_of h b)))"

section \<open>\<^verbatim>\<open>accumulate\<close>: the sequence reducer\<close>

text \<open>\<^verbatim>\<open>while True: accum = iadd(accum, next(gen))\<close>, left by \<^verbatim>\<open>StopIteration\<close>.\<close>

primrec accumulate_loop ::
  "userops \<Rightarrow> nat \<Rightarrow> val list \<Rightarrow> heap \<Rightarrow> val \<Rightarrow> error + heap \<times> val" where
  "accumulate_loop ops n [] h accum = Inr (h, accum)"
| "accumulate_loop ops n (x # gen) h accum =
     (case iadd ops n h accum x of
        Inl e \<Rightarrow> Inl e
      | Inr (h', accum') \<Rightarrow> accumulate_loop ops n gen h' accum')"

text \<open>\<^verbatim>\<open>accumulate(items, accum)\<close>; \<^verbatim>\<open>None\<close> is \<open>VNone\<close>, both as an absent item and as
  the absent initial accumulator.\<close>

definition accumulate ::
  "userops \<Rightarrow> nat \<Rightarrow> heap \<Rightarrow> val list \<Rightarrow> val \<Rightarrow> error + heap \<times> val" where
  "accumulate ops n h items accum =
     (let gen = filter (\<lambda>x. x \<noteq> VNone) items
      in if accum = VNone then
           (case gen of
              [] \<Rightarrow> Inr (h, VNone)
            | x # gen1 \<Rightarrow>
                (case gen1 of
                   [] \<Rightarrow> Inr (h, x)
                 | y # gen2 \<Rightarrow>
                     (case add ops n h x y of
                        Inl e \<Rightarrow> Inl e
                      | Inr (h', accum') \<Rightarrow> accumulate_loop ops n gen2 h' accum')))
         else accumulate_loop ops n gen h accum)"

section \<open>Notions used to state the properties\<close>

text \<open>Operators for a store without classes that define \<^verbatim>\<open>__add__\<close> themselves: called on
  anything, they raise \<^verbatim>\<open>TypeError\<close>.\<close>

definition no_userops :: userops where
  "no_userops =
     \<lparr>user_add = (\<lambda>h a b. Inl (TypeError_operands (type_of h a) (type_of h b))),
      user_iadd = (\<lambda>h a b. Inl (TypeError_operands (type_of h a) (type_of h b)))\<rparr>"





text \<open>The classification of a single value in the words of the specification: addable
  is checked first, then set-like, then mapping-like, and the first match wins.\<close>

datatype category = Addable | SetLike | MappingLike

definition spec_category :: "heap \<Rightarrow> val \<Rightarrow> category option" where
  "spec_category h v =
     (if is_addable h v then Some Addable
      else if is_mutable_set h v then Some SetLike
      else if is_mutable_mapping h v then Some MappingLike
      else None)"

text \<open>The two \<^verbatim>\<open>ValueError\<close>s that \<^verbatim>\<open>add\<close> and \<^verbatim>\<open>iadd\<close> raise themselves: the
  type-incompatibility errors of the specification.\<close>

definition is_incompatible :: "error \<Rightarrow> bool" where
  "is_incompatible e =
     (case e of ValueError_mappings t t' \<Rightarrow> True | ValueError_accumulators t t' \<Rightarrow> True
      | _ \<Rightarrow> False)"




definition memo_valid :: "heap \<Rightarrow> (addr \<times> addr) list \<Rightarrow> bool" where
  "memo_valid h m = (\<forall>pq\<in>set m. snd pq < length h)"


















section \<open>Basic facts about the store\<close>




section \<open>The reducer\<close>





lemma filter_VRef: "filter (\<lambda>x. x \<noteq> VNone) (map VRef ps) = map VRef ps"
  by (induction ps) auto




subsection \<open>Sets\<close>












text \<open>
  Claim C4. Reducing a one-item sequence with no initial accumulator gives back that
  item: the same value (the same address, for an object), with the store untouched, so the
  item is neither combined, nor copied, nor mutated.
\<close>

theorem accumulate_singleton_identity:
  "accumulate ops n h [x] VNone = Inr (h, x)"
  by (cases x) (simp_all add: accumulate_def)

text \<open>
  Claim C7. Absent entries are skipped and are no error: the empty sequence and a
  sequence of absent entries give the absent result in an unchanged store, an item between
  absent entries reduces as the item alone does, and in general the reduction of a
  sequence is the reduction of its non-absent entries.
\<close>

theorem accumulate_skips_absent:
  "accumulate ops n h [] VNone = Inr (h, VNone)
   \<and> accumulate ops n h [VNone, VNone] VNone = Inr (h, VNone)
   \<and> accumulate ops n h [VNone, x, VNone] VNone = accumulate ops n h [x] VNone
   \<and> accumulate ops n h items accum
       = accumulate ops n h (filter (\<lambda>x. x \<noteq> VNone) items) accum"
  by (cases x) (simp_all add: accumulate_def)



section \<open>\<^verbatim>\<open>add\<close> writes to no existing object\<close>
























section \<open>Where the errors of \<^verbatim>\<open>add\<close> come from\<close>

lemma deepcopy_list_error:
  assumes dc: "\<And>h m v e. dc h m v = Inl e \<Longrightarrow> e = RecursionError"
  shows "deepcopy_list dc h m y xs = Inl e \<Longrightarrow> e = RecursionError"
proof (induction xs arbitrary: h m)
  case Nil
  then show ?case by simp
next
  case (Cons x xs)
  then show ?case by (auto split: sum.splits dest: dc)
qed

lemma deepcopy_dict_error:
  assumes dc: "\<And>h m v e. dc h m v = Inl e \<Longrightarrow> e = RecursionError"
  shows "deepcopy_dict dc h m y es = Inl e \<Longrightarrow> e = RecursionError"
proof (induction es arbitrary: h m)
  case Nil
  then show ?case by simp
next
  case (Cons kv es)
  then show ?case by (auto split: sum.splits dest: dc)
qed

lemma deepcopy_error: "deepcopy n h m v = Inl e \<Longrightarrow> e = RecursionError"
proof (induction n arbitrary: h m v e)
  case 0
  then show ?case by simp
next
  case (Suc n)
  then show ?case
    by (auto split: val.splits option.splits obj.splits sum.splits
             dest: deepcopy_list_error[where dc = "deepcopy n", rotated]
                   deepcopy_dict_error[where dc = "deepcopy n", rotated])
qed

lemma getitem_error: "getitem h p k = Inl e \<Longrightarrow> \<not> is_incompatible e"
  by (auto simp: getitem_def is_incompatible_def split: option.splits)

lemma add_keys_a_incompatible:
  assumes "add_keys_a rec n out pa pb rhs len ks h = Inl e" "is_incompatible e"
  shows "\<exists>k h1 va vb. k \<in> set ks \<and> k \<in> rhs \<and> getitem h1 pa k = Inr va \<and>
           getitem h1 pb k = Inr vb \<and> rec h1 va vb = Inl e"
  using assms(1)
proof (induction ks arbitrary: h)
  case Nil
  with assms(2) show ?case by (auto simp: is_incompatible_def split: if_splits)
next
  case (Cons k ks)
  from Cons.prems assms(2) have len: "length (entries h pa) = len"
    by (auto simp: is_incompatible_def split: if_splits)
  show ?case
  proof (cases "k \<in> rhs")
    case True
    from Cons.prems len True assms(2) obtain va vb where
      g: "getitem h pa k = Inr va" "getitem h pb k = Inr vb"
      by (auto split: sum.splits dest: getitem_error)
    show ?thesis
    proof (cases "rec h va vb")
      case (Inl e')
      with Cons.prems len True g have "e' = e" by simp
      with Inl g True show ?thesis by (intro exI[of _ k] exI[of _ h]) auto
    next
      case (Inr hr)
      with Cons.prems len True g obtain h1 r where
        "add_keys_a rec n out pa pb rhs len ks (setitem h1 out k r) = Inl e"
        by (cases hr) auto
      from Cons.IH[OF this] show ?thesis by auto
    qed
  next
    case False
    from Cons.prems len False assms(2) obtain va where
      g: "getitem h pa k = Inr va"
      by (auto split: sum.splits dest: getitem_error)
    show ?thesis
    proof (cases "deepcopy n h [] va")
      case (Inl e')
      with Cons.prems len False g have "e' = e" by simp
      with Inl assms(2) deepcopy_error[OF Inl] show ?thesis
        by (simp add: is_incompatible_def)
    next
      case (Inr hr)
      with Cons.prems len False g obtain h1 c where
        "add_keys_a rec n out pa pb rhs len ks (setitem h1 out k c) = Inl e"
        by (cases hr) auto
      from Cons.IH[OF this] show ?thesis by auto
    qed
  qed
qed

lemma add_keys_b_not_incompatible:
  "add_keys_b n out pb lhs len ks h = Inl e \<Longrightarrow> \<not> is_incompatible e"
proof (induction ks arbitrary: h)
  case Nil
  then show ?case by (auto simp: is_incompatible_def split: if_splits)
next
  case (Cons k ks)
  then show ?case
    by (auto simp: is_incompatible_def getitem_def
             split: if_splits sum.splits option.splits dest: deepcopy_error)
qed

lemma entries_new_mapping: "entries (new_mapping h t) p = entries h p"
proof -
  consider "p < length h" | "p = length h" | "length h < p" by linarith
  then show ?thesis
    by cases (simp_all add: entries_def new_mapping_def lookup_def nth_append)
qed

lemma keys_new_mapping: "keys (new_mapping h t) p = keys h p"
  by (simp add: keys_def entries_new_mapping)

lemma add_mapping_incompatible:
  assumes "add_mapping rec n h t pa pb = Inl e" "is_incompatible e"
  shows "\<exists>k h1 va vb. k \<in> set (keys h pa) \<and> k \<in> set (keys h pb) \<and> getitem h1 pa k = Inr va \<and>
           getitem h1 pb k = Inr vb \<and> rec h1 va vb = Inl e"
proof -
  let ?h0 = "new_mapping h t"
  show ?thesis
  proof (cases "add_keys_a rec n (length h) pa pb (set (keys h pb)) (length (keys h pa))
          (keys h pa) ?h0")
    case (Inl e')
    with assms(1) have "e' = e" by (simp add: add_mapping_def Let_def keys_new_mapping)
    from add_keys_a_incompatible[OF Inl[unfolded this] assms(2)] show ?thesis
      by blast
  next
    case (Inr h1)
    with assms(1) have "add_keys_b n (length h) pb (set (keys h pa)) (length (keys h1 pb))
        (keys h1 pb) h1 = Inl e"
      by (auto simp: add_mapping_def Let_def keys_new_mapping split: sum.splits)
    from add_keys_b_not_incompatible[OF this] assms(2) show ?thesis by simp
  qed
qed

lemma both_sets_or:
  "is_mutable_set h a \<Longrightarrow> is_mutable_set h b \<Longrightarrow> \<exists>h' r. operator_or h a b = Inr (h', r)"
  by (auto simp: is_mutable_set_def operator_or_def split: val.splits option.splits obj.splits)

lemma mapping_is_ref: "is_mutable_mapping h a \<Longrightarrow> \<exists>p. a = VRef p"
  by (cases a) (simp_all add: is_mutable_mapping_def)

lemma set_not_mapping: "is_mutable_set h a \<Longrightarrow> \<not> is_mutable_mapping h a"
  by (auto simp: is_mutable_set_def is_mutable_mapping_def split: val.splits option.splits obj.splits)

lemma add_Suc_addable:
  "is_addable h a \<and> is_addable h b \<Longrightarrow> add ops (Suc n) h a b = operator_add ops h a b"
  by simp

lemma add_Suc_sets:
  "\<not> (is_addable h a \<and> is_addable h b) \<Longrightarrow> is_mutable_set h a \<and> is_mutable_set h b \<Longrightarrow>
   add ops (Suc n) h a b = operator_or h a b"
  by (simp only: add.simps if_not_P if_P if_False if_True)

lemma add_Suc_mappings:
  "\<not> (is_addable h (VRef pa) \<and> is_addable h (VRef pb)) \<Longrightarrow>
   is_mutable_mapping h (VRef pa) \<and> is_mutable_mapping h (VRef pb) \<Longrightarrow>
   add ops (Suc n) h (VRef pa) (VRef pb) =
     (if isinstance_ty (type_of h (VRef pb)) (type_of h (VRef pa)) then
        add_mapping (add ops n) n h (type_of h (VRef pa)) pa pb
      else if isinstance_ty (type_of h (VRef pa)) (type_of h (VRef pb)) then
        add_mapping (add ops n) n h (type_of h (VRef pb)) pa pb
      else Inl (ValueError_mappings (type_of h (VRef pa)) (type_of h (VRef pb))))"
proof -
  assume a: "\<not> (is_addable h (VRef pa) \<and> is_addable h (VRef pb))"
    and m: "is_mutable_mapping h (VRef pa) \<and> is_mutable_mapping h (VRef pb)"
  from m have s: "\<not> (is_mutable_set h (VRef pa) \<and> is_mutable_set h (VRef pb))"
    by (auto dest: set_not_mapping)
  show ?thesis
    by (simp only: add.simps if_not_P[OF a] if_not_P[OF s] if_P[OF m] val.case prod.case)
qed

lemma add_Suc_other:
  "\<not> (is_addable h a \<and> is_addable h b) \<Longrightarrow> \<not> (is_mutable_set h a \<and> is_mutable_set h b) \<Longrightarrow>
   \<not> (is_mutable_mapping h a \<and> is_mutable_mapping h b) \<Longrightarrow>
   add ops (Suc n) h a b = Inl (ValueError_accumulators (type_of h a) (type_of h b))"
  by (simp only: add.simps if_not_P if_False)

text \<open>
  Claim C6, as amended. With recursion depth left, \<^verbatim>\<open>add\<close> raises the error naming both
  operand types when the operands share none of the three capabilities, and the error
  naming both mapping types when both are mappings (and not both addable) and neither type
  is an instance of the other's. Two addable operands give whatever \<^verbatim>\<open>operator.add\<close>
  gives, and two sets that are not both addable always combine. For two type-compatible
  mappings a type-incompatibility error is raised only if the recursive \<^verbatim>\<open>add\<close> on the two
  values of some shared key raises it.
\<close>

theorem add_type_incompatible:
  "(\<not> (is_addable h a \<and> is_addable h b) \<and> \<not> (is_mutable_set h a \<and> is_mutable_set h b)
      \<and> \<not> (is_mutable_mapping h a \<and> is_mutable_mapping h b) \<longrightarrow>
      add ops (Suc n) h a b = Inl (ValueError_accumulators (type_of h a) (type_of h b)))
   \<and> (\<not> (is_addable h a \<and> is_addable h b)
      \<and> is_mutable_mapping h a \<and> is_mutable_mapping h b
      \<and> \<not> isinstance_ty (type_of h b) (type_of h a)
      \<and> \<not> isinstance_ty (type_of h a) (type_of h b) \<longrightarrow>
      add ops (Suc n) h a b = Inl (ValueError_mappings (type_of h a) (type_of h b)))
   \<and> (is_addable h a \<and> is_addable h b \<longrightarrow> add ops (Suc n) h a b = operator_add ops h a b)
   \<and> (\<not> (is_addable h a \<and> is_addable h b) \<and> is_mutable_set h a \<and> is_mutable_set h b \<longrightarrow>
      (\<exists>h' r. add ops (Suc n) h a b = Inr (h', r)))
   \<and> (\<not> (is_addable h (VRef pa) \<and> is_addable h (VRef pb))
      \<and> is_mutable_mapping h (VRef pa) \<and> is_mutable_mapping h (VRef pb)
      \<and> (isinstance_ty (type_of h (VRef pb)) (type_of h (VRef pa))
          \<or> isinstance_ty (type_of h (VRef pa)) (type_of h (VRef pb)))
      \<and> add ops (Suc n) h (VRef pa) (VRef pb) = Inl e \<and> is_incompatible e \<longrightarrow>
      (\<exists>k h1 va vb. k \<in> set (keys h pa) \<and> k \<in> set (keys h pb)
          \<and> getitem h1 pa k = Inr va \<and> getitem h1 pb k = Inr vb
          \<and> add ops n h1 va vb = Inl e))"
proof (intro conjI impI)
  assume "\<not> (is_addable h a \<and> is_addable h b) \<and> \<not> (is_mutable_set h a \<and> is_mutable_set h b)
      \<and> \<not> (is_mutable_mapping h a \<and> is_mutable_mapping h b)"
  then show "add ops (Suc n) h a b = Inl (ValueError_accumulators (type_of h a) (type_of h b))"
    by (intro add_Suc_other) blast+
next
  assume a: "\<not> (is_addable h a \<and> is_addable h b)
      \<and> is_mutable_mapping h a \<and> is_mutable_mapping h b
      \<and> \<not> isinstance_ty (type_of h b) (type_of h a)
      \<and> \<not> isinstance_ty (type_of h a) (type_of h b)"
  then obtain pa pb where "a = VRef pa" "b = VRef pb" by (blast dest: mapping_is_ref)
  with a show "add ops (Suc n) h a b = Inl (ValueError_mappings (type_of h a) (type_of h b))"
    by (simp add: add_Suc_mappings del: add.simps)
next
  assume "is_addable h a \<and> is_addable h b"
  then show "add ops (Suc n) h a b = operator_add ops h a b" by simp
next
  assume "\<not> (is_addable h a \<and> is_addable h b) \<and> is_mutable_set h a \<and> is_mutable_set h b"
  then show "\<exists>h' r. add ops (Suc n) h a b = Inr (h', r)"
    by (simp add: add_Suc_sets both_sets_or del: add.simps)
next
  assume a: "\<not> (is_addable h (VRef pa) \<and> is_addable h (VRef pb))
      \<and> is_mutable_mapping h (VRef pa) \<and> is_mutable_mapping h (VRef pb)
      \<and> (isinstance_ty (type_of h (VRef pb)) (type_of h (VRef pa))
          \<or> isinstance_ty (type_of h (VRef pa)) (type_of h (VRef pb)))
      \<and> add ops (Suc n) h (VRef pa) (VRef pb) = Inl e \<and> is_incompatible e"
  then obtain t where "add_mapping (add ops n) n h t pa pb = Inl e"
    by (auto simp: add_Suc_mappings simp del: add.simps split: if_splits)
  from add_mapping_incompatible[OF this] a
  show "\<exists>k h1 va vb. k \<in> set (keys h pa) \<and> k \<in> set (keys h pb)
          \<and> getitem h1 pa k = Inr va \<and> getitem h1 pb k = Inr vb
          \<and> add ops n h1 va vb = Inl e"
    by blast
qed

theorem add_type_incompatible_witness:
  "add no_userops (Suc 0) [OSet set_type {1}, ODict dict_type []] (VRef 0) (VRef 1)
     = Inl (ValueError_accumulators set_type dict_type)
   \<and> add no_userops (Suc 0)
       [ODict (PyType ''A'' [''object''] False) [], ODict (PyType ''B'' [''object''] False) []]
       (VRef 0) (VRef 1)
     = Inl (ValueError_mappings (PyType ''A'' [''object''] False) (PyType ''B'' [''object''] False))"
proof -
  let ?h = "[OSet set_type {1}, ODict dict_type []]"
  let ?g = "[ODict (PyType ''A'' [''object''] False) [], ODict (PyType ''B'' [''object''] False) []]"
  have 1: "\<not> (is_addable ?h (VRef 0) \<and> is_addable ?h (VRef 1))
      \<and> \<not> (is_mutable_set ?h (VRef 0) \<and> is_mutable_set ?h (VRef 1))
      \<and> \<not> (is_mutable_mapping ?h (VRef 0) \<and> is_mutable_mapping ?h (VRef 1))"
    by (simp add: is_addable_def is_mutable_set_def is_mutable_mapping_def type_of_def
        lookup_def set_type_def dict_type_def)
  have 2: "\<not> (is_addable ?g (VRef 0) \<and> is_addable ?g (VRef 1))
      \<and> is_mutable_mapping ?g (VRef 0) \<and> is_mutable_mapping ?g (VRef 1)
      \<and> \<not> isinstance_ty (type_of ?g (VRef 1)) (type_of ?g (VRef 0))
      \<and> \<not> isinstance_ty (type_of ?g (VRef 0)) (type_of ?g (VRef 1))"
    by (simp add: is_addable_def is_mutable_mapping_def type_of_def lookup_def isinstance_ty_def)
  have t1: "type_of ?h (VRef 0) = set_type" "type_of ?h (VRef 1) = dict_type"
    by (simp_all add: type_of_def lookup_def)
  have t2: "type_of ?g (VRef 0) = PyType ''A'' [''object''] False"
    "type_of ?g (VRef 1) = PyType ''B'' [''object''] False"
    by (simp_all add: type_of_def lookup_def)
  from add_type_incompatible[of ?h "VRef 0" "VRef 1" no_userops 0] 1 t1
  have "add no_userops (Suc 0) ?h (VRef 0) (VRef 1)
     = Inl (ValueError_accumulators set_type dict_type)" by simp
  moreover from add_type_incompatible[of ?g "VRef 0" "VRef 1" no_userops 0] 2 t2
  have "add no_userops (Suc 0) ?g (VRef 0) (VRef 1)
     = Inl (ValueError_mappings (PyType ''A'' [''object''] False) (PyType ''B'' [''object''] False))"
    by simp
  ultimately show ?thesis by simp
qed

text \<open>
  Claim C6 as stated fails: both operands below are mappings of the same type \<^verbatim>\<open>dict\<close>,
  and \<^verbatim>\<open>add\<close> still raises the type-incompatibility error, for the integer and the
  mapping found under the shared key.
\<close>

theorem add_nested_incompatible_counterexample:
  "spec_category [ODict dict_type [(''k'', VInt 1)], ODict dict_type [(''k'', VRef 2)],
                  ODict dict_type []] (VRef 0) = Some MappingLike
   \<and> spec_category [ODict dict_type [(''k'', VInt 1)], ODict dict_type [(''k'', VRef 2)],
                  ODict dict_type []] (VRef 1) = Some MappingLike
   \<and> isinstance_ty dict_type dict_type
   \<and> add no_userops (Suc (Suc 0))
        [ODict dict_type [(''k'', VInt 1)], ODict dict_type [(''k'', VRef 2)], ODict dict_type []]
        (VRef 0) (VRef 1)
      = Inl (ValueError_accumulators int_type dict_type)"
  by (simp add: spec_category_def is_addable_def is_mutable_set_def is_mutable_mapping_def
      type_of_def lookup_def dict_type_def int_type_def isinstance_ty_def add_mapping_def
      new_mapping_def keys_def entries_def getitem_def)

section \<open>Non-mutation, and the dispatch on the operands\<close>




text \<open>
  Claim C8, as amended. The category is decided for the pair of operands, not for each
  value: two addable operands are combined by \<^verbatim>\<open>operator.add\<close> and \<^verbatim>\<open>operator.iadd\<close>
  whatever else they are (by the class's own methods when both are sets or mappings of
  classes defining \<^verbatim>\<open>__add__\<close>); two sets that are not both addable by union; two mappings
  that are not both addable by the recursive merge, even when one of them is addable.
\<close>

theorem dispatch_on_the_pair:
  "(is_addable h a \<and> is_addable h b \<longrightarrow>
      add ops (Suc n) h a b = operator_add ops h a b
      \<and> iadd ops (Suc n) h a b = operator_iadd ops h a b)
   \<and> (is_user_addable h a \<and> is_user_addable h b \<longrightarrow>
      spec_category h a = Some Addable \<and> spec_category h b = Some Addable
      \<and> add ops (Suc n) h a b = user_add ops h a b
      \<and> iadd ops (Suc n) h a b = user_iadd ops h a b)
   \<and> (\<not> (is_addable h a \<and> is_addable h b) \<and> is_mutable_set h a \<and> is_mutable_set h b \<longrightarrow>
      add ops (Suc n) h a b = operator_or h a b
      \<and> iadd ops (Suc n) h a b = operator_ior h a b)
   \<and> (\<not> (is_addable h (VRef pa) \<and> is_addable h (VRef pb))
      \<and> is_mutable_mapping h (VRef pa) \<and> is_mutable_mapping h (VRef pb)
      \<and> isinstance_ty (type_of h (VRef pb)) (type_of h (VRef pa)) \<longrightarrow>
      add ops (Suc n) h (VRef pa) (VRef pb)
        = add_mapping (add ops n) n h (type_of h (VRef pa)) pa pb
      \<and> iadd ops (Suc n) h (VRef pa) (VRef pb) = iadd_mapping (iadd ops n) n h pa pb)"
proof (intro conjI impI)
  assume "is_addable h a \<and> is_addable h b"
  then show "add ops (Suc n) h a b = operator_add ops h a b"
    and "iadd ops (Suc n) h a b = operator_iadd ops h a b"
    by simp_all
next
  assume u: "is_user_addable h a \<and> is_user_addable h b"
  then have ad: "is_addable h a \<and> is_addable h b"
    by (auto simp: is_user_addable_def is_addable_def type_of_def
             split: val.splits option.splits obj.splits)
  then show "spec_category h a = Some Addable" "spec_category h b = Some Addable"
    by (simp_all add: spec_category_def)
  from u ad show "add ops (Suc n) h a b = user_add ops h a b"
    and "iadd ops (Suc n) h a b = user_iadd ops h a b"
    by (simp_all add: operator_add_def operator_iadd_def)
next
  assume s: "\<not> (is_addable h a \<and> is_addable h b) \<and> is_mutable_set h a \<and> is_mutable_set h b"
  then show "add ops (Suc n) h a b = operator_or h a b"
    by (simp add: add_Suc_sets del: add.simps)
  from s have 1: "\<not> (is_addable h a \<and> is_addable h b)"
    and 2: "is_mutable_set h a \<and> is_mutable_set h b" by blast+
  show "iadd ops (Suc n) h a b = operator_ior h a b"
    by (simp only: iadd.simps if_not_P[OF 1] if_P[OF 2])
next
  assume m: "\<not> (is_addable h (VRef pa) \<and> is_addable h (VRef pb))
      \<and> is_mutable_mapping h (VRef pa) \<and> is_mutable_mapping h (VRef pb)
      \<and> isinstance_ty (type_of h (VRef pb)) (type_of h (VRef pa))"
  then show "add ops (Suc n) h (VRef pa) (VRef pb)
        = add_mapping (add ops n) n h (type_of h (VRef pa)) pa pb"
    by (simp add: add_Suc_mappings del: add.simps)
  from m have 1: "\<not> (is_addable h (VRef pa) \<and> is_addable h (VRef pb))"
    and 3: "is_mutable_mapping h (VRef pa) \<and> is_mutable_mapping h (VRef pb)"
    and 4: "isinstance_ty (type_of h (VRef pb)) (type_of h (VRef pa))" by blast+
  from 3 have 2: "\<not> (is_mutable_set h (VRef pa) \<and> is_mutable_set h (VRef pb))"
    by (auto dest: set_not_mapping)
  show "iadd ops (Suc n) h (VRef pa) (VRef pb) = iadd_mapping (iadd ops n) n h pa pb"
    by (simp only: iadd.simps if_not_P[OF 1] if_not_P[OF 2] if_P[OF 3] 4 val.case prod.case
        not_True_eq_False if_False)
qed

theorem dispatch_on_the_pair_witness:
  "add no_userops (Suc 0) [] (VInt 1) (VInt 2) = Inr ([], VInt 3)
   \<and> iadd no_userops (Suc 0) [OSet set_type {1}, OSet set_type {2}] (VRef 0) (VRef 1)
       = Inr ([OSet set_type {1, 2}, OSet set_type {2}], VRef 0)"
proof -
  let ?h = "[OSet set_type {1}, OSet set_type {2}]"
  have 1: "is_addable [] (VInt 1) \<and> is_addable [] (VInt 2)"
    by (simp add: is_addable_def type_of_def int_type_def)
  have 2: "\<not> (is_addable ?h (VRef 0) \<and> is_addable ?h (VRef 1))
      \<and> is_mutable_set ?h (VRef 0) \<and> is_mutable_set ?h (VRef 1)"
    by (simp add: is_addable_def is_mutable_set_def type_of_def lookup_def set_type_def)
  from dispatch_on_the_pair[of "[]" "VInt 1" "VInt 2" no_userops 0] 1
  have "add no_userops (Suc 0) [] (VInt 1) (VInt 2) = Inr ([], VInt 3)"
    by (simp add: operator_add_def is_user_addable_def)
  moreover from dispatch_on_the_pair[of ?h "VRef 0" "VRef 1" no_userops 0] 2
  have "iadd no_userops (Suc 0) ?h (VRef 0) (VRef 1)
       = Inr ([OSet set_type {1, 2}, OSet set_type {2}], VRef 0)"
    by (simp add: operator_ior_def lookup_def insert_commute)
  ultimately show ?thesis by simp
qed

text \<open>
  Claim C8 as stated fails. The first operand below is a mapping of a class that defines
  \<^verbatim>\<open>__add__\<close> (as \<^verbatim>\<open>collections.Counter\<close> does), so its first matching category is
  addable; paired with a plain \<^verbatim>\<open>dict\<close> it is nevertheless merged as a mapping, key by
  key, and its addable combine is not used (here it would have raised).
\<close>

theorem hybrid_merged_as_mapping_counterexample:
  "spec_category
      [ODict (PyType ''Counter'' [''dict'', ''object''] True) [(''x'', VInt 1)],
       ODict dict_type [(''x'', VInt 2)]] (VRef 0) = Some Addable
   \<and> add no_userops (Suc (Suc 0))
      [ODict (PyType ''Counter'' [''dict'', ''object''] True) [(''x'', VInt 1)],
       ODict dict_type [(''x'', VInt 2)]] (VRef 0) (VRef 1)
     = Inr ([ODict (PyType ''Counter'' [''dict'', ''object''] True) [(''x'', VInt 1)],
             ODict dict_type [(''x'', VInt 2)], ODict dict_type [(''x'', VInt 3)]], VRef 2)
   \<and> iadd no_userops (Suc (Suc 0))
      [ODict dict_type [(''x'', VInt 2)],
       ODict (PyType ''Counter'' [''dict'', ''object''] True) [(''x'', VInt 1)]] (VRef 0) (VRef 1)
     = Inr ([ODict dict_type [(''x'', VInt 3)],
             ODict (PyType ''Counter'' [''dict'', ''object''] True) [(''x'', VInt 1)]], VRef 0)
   \<and> operator_add no_userops
      [ODict (PyType ''Counter'' [''dict'', ''object''] True) [(''x'', VInt 1)],
       ODict dict_type [(''x'', VInt 2)]] (VRef 0) (VRef 1)
     = Inl (TypeError_operands (PyType ''Counter'' [''dict'', ''object''] True) dict_type)"
  by (simp add: spec_category_def is_addable_def is_mutable_set_def is_mutable_mapping_def
      type_of_def lookup_def dict_type_def int_type_def isinstance_ty_def add_mapping_def
      iadd_mapping_def new_mapping_def keys_def entries_def getitem_def setitem_def
      operator_add_def operator_iadd_def is_user_addable_def no_userops_def)

section \<open>Shared keys with mismatched values\<close>




















lemma memo_valid_mono: "memo_valid h m \<Longrightarrow> length h \<le> length h' \<Longrightarrow> memo_valid h' m"
  by (auto simp: memo_valid_def)














lemma entries_nonempty_lt: "map_of (entries h p) k = Some v \<Longrightarrow> p < length h"
  by (cases "p < length h") (simp_all add: entries_def lookup_def)


























section \<open>Deep copies are isolated from the inputs\<close>






































section \<open>The footprint of \<^verbatim>\<open>iadd\<close>\<close>






























end
